theory Spec2Isabelle
  imports Complex_Main
begin

section \<open>Data model of the live-video demo (index.js)\<close>

text \<open>
  The demo is one JavaScript module with module-level variables (\<open>detector\<close>,
  \<open>camera\<close>, \<open>rafId\<close>) and the shared object \<open>STATE\<close> imported from the parameter
  module. JavaScript values that the code only passes on or compares are kept as a small
  sum of primitives; an object whose fields are read by name (\<open>STATE.modelConfig\<close>,
  \<open>STATE.flags\<close>, \<open>STATE.camera\<close>) is a map from field names to values, a missing field
  reading as \<open>undefined\<close>.

  The statistics functions of lines 118-138 and their variables are left out: no
  statement of the module calls them (lines 155, 170 and 209 are comments), and what they
  compute is binary64 arithmetic on clock readings.
\<close>

datatype jsval = JUndefined | JBool bool | JNum real | JStr string

type_synonym jsobject = "string \<rightharpoonup> jsval"

definition jsget :: "jsobject \<Rightarrow> string \<Rightarrow> jsval" where
  "jsget obj k = (case obj k of None \<Rightarrow> JUndefined | Some v \<Rightarrow> v)"

text \<open>
  \<open>posedetection.SupportedModels\<close> has the three members the \<open>switch\<close> of
  \<open>createDetector\<close> names; \<open>OtherModel\<close> stands for any other value of \<open>STATE.model\<close>,
  for which no \<open>case\<close> matches.
\<close>

datatype supported_model = PoseNet | BlazePose | MoveNet | OtherModel

text \<open>The constants of \<open>posedetection.movenet.modelType\<close>.\<close>

datatype movenet_modelType = SINGLEPOSE_LIGHTNING | SINGLEPOSE_THUNDER | MULTIPOSE

record state =
  model :: supported_model
  backend :: string
  flags :: jsobject
  cameraParams :: jsobject
  modelConfig :: jsobject
  isModelChanged :: bool
  isFlagChanged :: bool
  isBackendChanged :: bool
  isTargetFPSChanged :: bool
  isSizeOptionChanged :: bool

text \<open>
  The option objects handed to \<open>posedetection.createDetector\<close>, one shape per branch.
  In \<open>MoveNetOptions\<close> the first component is the field \<open>modelType\<close> (\<open>None\<close> when the
  local variable was left \<open>undefined\<close>) and the second is the field \<open>modelUrl\<close>, \<open>None\<close>
  when the object literal has no such field (\<open>MoveNetModelConfig\<close> declares both optional).
\<close>

record posenet_options =
  quantBytes :: nat
  architecture :: string
  outputStride :: nat
  inputResolution :: "nat \<times> nat"
  multiplier :: real

datatype detector_options =
    PoseNetOptions posenet_options
  | BlazePoseOptions string jsval "string option"
  | MoveNetOptions "movenet_modelType option" "jsval option"

type_synonym factory_call = "supported_model \<times> detector_options"

section \<open>createDetector (lines 42-83)\<close>

text \<open>\<open>STATE.backend.split("-")[0]\<close>: the text before the first dash.\<close>

definition runtimeOf :: "string \<Rightarrow> string" where
  "runtimeOf b = takeWhile (\<lambda>c. c \<noteq> CHR ''-'') b"

text \<open>
  Lines 67-74. The comparison is \<open>==\<close> against a string literal, which among the
  primitive values holds for that string only.
\<close>

definition moveNetModelType :: "jsval \<Rightarrow> movenet_modelType option" where
  "moveNetModelType t =
     (if t = JStr ''lightning'' then Some SINGLEPOSE_LIGHTNING
      else if t = JStr ''thunder'' then Some SINGLEPOSE_THUNDER
      else if t = JStr ''multipose'' then Some MULTIPOSE
      else None)"

text \<open>
  Lines 66-81, the statements under \<open>case MoveNet\<close>. They are also what runs when the
  BlazePose case reaches its end without returning, since that case has no \<open>break\<close>.
\<close>

definition moveNetCase :: "state \<Rightarrow> factory_call option" where
  "moveNetCase s =
     (let modelType = moveNetModelType (jsget (modelConfig s) ''type'') in
      if jsget (modelConfig s) ''customModel'' \<noteq> JStr ''''
      then Some (model s, MoveNetOptions modelType (Some (jsget (modelConfig s) ''customModel'')))
      else Some (model s, MoveNetOptions modelType None))"

text \<open>
  The result is the call made to the factory \<open>posedetection.createDetector\<close>, or \<open>None\<close>
  when the function falls out of the \<open>switch\<close> and returns \<open>undefined\<close> without calling it.
\<close>

definition createDetector :: "state \<Rightarrow> factory_call option" where
  "createDetector s =
     (case model s of
        PoseNet \<Rightarrow>
          Some (model s, PoseNetOptions
            \<lparr>quantBytes = 4, architecture = ''MobileNetV1'', outputStride = 16,
             inputResolution = (500, 500), multiplier = 3 / 4\<rparr>)
      | BlazePose \<Rightarrow>
          (let runtime = runtimeOf (backend s) in
           if runtime = ''mediapipe''
           then Some (model s, BlazePoseOptions runtime (jsget (modelConfig s) ''type'')
                        (Some ''https://cdn.jsdelivr.net/npm/@mediapipe/pose@0.4''))
           else if runtime = ''tfjs''
           then Some (model s, BlazePoseOptions runtime (jsget (modelConfig s) ''type'') None)
           else moveNetCase s)
      | MoveNet \<Rightarrow> moveNetCase s
      | OtherModel \<Rightarrow> None)"

section \<open>The module's variables, its collaborators and its observable actions\<close>

text \<open>
  Detector handles, camera objects and poses are opaque to the demo: they are identified
  by numbers. A handle is the number the factory's successful call was given.
\<close>

type_synonym handle = nat

type_synonym cameraRef = nat

type_synonym pose = nat

text \<open>An awaited promise settles either way; a rejection carries the thrown value.\<close>

datatype 'a settled = Resolved 'a | Rejected string

datatype change_flag =
  IsModelChanged | IsFlagChanged | IsBackendChanged | IsTargetFPSChanged | IsSizeOptionChanged

text \<open>The second argument of \<open>detector.estimatePoses\<close> (lines 160-163).\<close>

record estimation_config =
  maxPoses :: jsval
  flipHorizontal :: bool

text \<open>
  Everything the module does to the outside is recorded, in order: its calls to the
  collaborators, and its writes to the change flags of the shared \<open>STATE\<close>, which the
  control panel sees. \<open>DetectorReady h\<close> is the moment the factory's promise resolves
  with handle \<open>h\<close>.
\<close>

datatype event =
    SetFlag change_flag bool
  | SetupDatGui
  | SetupCamera jsobject
  | CancelAnimationFrame "nat option"
  | Dispose handle
  | SetBackendAndEnvFlags jsobject string
  | CreateDetector "factory_call option"
  | DetectorReady handle
  | Alert string
  | EstimatePoses handle cameraRef estimation_config
  | DrawCtx cameraRef
  | DrawResults cameraRef "pose list"
  | DrawIdeal cameraRef
  | DrawIndicators cameraRef
  | RequestAnimationFrame nat

text \<open>
  Lines 35-40 and the globals the module touches. \<open>None\<close> is \<open>undefined\<close> or \<open>null\<close>
  (the code tests \<open>detector\<close> with \<open>!= null\<close>, which is false for both). \<open>nextHandle\<close>
  and \<open>nextRafId\<close> number the objects and the callback ids the host hands out.
\<close>

record world =
  STATE :: state
  detector :: "handle option"
  camera :: "cameraRef option"
  rafId :: "nat option"
  windowCam :: "cameraRef option"
  trace :: "event list"
  nextHandle :: nat
  nextRafId :: nat

text \<open>
  What the surroundings do during one tick of the loop. The collaborators fail as their
  interfaces say: \<open>Camera.setupCamera\<close> may reject, the factory may reject,
  \<open>estimatePoses\<close> may reject; \<open>dispose\<close>, \<open>setBackendAndEnvFlags\<close>, the drawing calls
  and \<open>alert\<close> return. At every \<open>await\<close> that waits for a collaborator the control panel
  may run and change \<open>STATE\<close> in any way: the \<open>during...\<close> fields are those changes.
  \<open>videoReady\<close> says that \<open>camera.video.readyState\<close> is at least 2 at line 141, and
  \<open>loadedData\<close> that the promise of lines 142-146 is ever resolved.
\<close>

record env =
  duringSetupDatGui :: "state \<Rightarrow> state"
  setupCamera :: "cameraRef settled"
  duringSetupCamera :: "state \<Rightarrow> state"
  duringSetBackend :: "state \<Rightarrow> state"
  factory :: "unit settled"
  duringCreate :: "state \<Rightarrow> state"
  videoReady :: bool
  loadedData :: bool
  duringFrameWait :: "state \<Rightarrow> state"
  estimatePoses :: "pose list settled"
  duringEstimate :: "state \<Rightarrow> state"
  beforeNextFrame :: "state \<Rightarrow> state"

text \<open>
  How an \<open>async\<close> function of the module ends other than by returning: with a rejection
  it does not catch, or never, when it waits for a promise nobody resolves. The world at
  that moment is kept with it.
\<close>

datatype failure = DeviceError string | LoadError string | TypeError | NeverResumes

type_synonym outcome = "(failure \<times> world) + world"

definition emit :: "event \<Rightarrow> world \<Rightarrow> world" where
  "emit ev w = w\<lparr>trace := trace w @ [ev]\<rparr>"

definition panel :: "(state \<Rightarrow> state) \<Rightarrow> world \<Rightarrow> world" where
  "panel f w = w\<lparr>STATE := f (STATE w)\<rparr>"

definition writeFlag :: "change_flag \<Rightarrow> bool \<Rightarrow> state \<Rightarrow> state" where
  "writeFlag fl b s =
     (case fl of
        IsModelChanged \<Rightarrow> s\<lparr>isModelChanged := b\<rparr>
      | IsFlagChanged \<Rightarrow> s\<lparr>isFlagChanged := b\<rparr>
      | IsBackendChanged \<Rightarrow> s\<lparr>isBackendChanged := b\<rparr>
      | IsTargetFPSChanged \<Rightarrow> s\<lparr>isTargetFPSChanged := b\<rparr>
      | IsSizeOptionChanged \<Rightarrow> s\<lparr>isSizeOptionChanged := b\<rparr>)"

definition setFlag :: "change_flag \<Rightarrow> bool \<Rightarrow> world \<Rightarrow> world" where
  "setFlag fl b w = emit (SetFlag fl b) (w\<lparr>STATE := writeFlag fl b (STATE w)\<rparr>)"

section \<open>checkGuiUpdate (lines 85-116)\<close>

text \<open>Lines 86-90: the camera is set up again when the frame rate or the size changed.\<close>

definition reconcileCapture :: "env \<Rightarrow> world \<Rightarrow> outcome" where
  "reconcileCapture e w =
     (if isTargetFPSChanged (STATE w) \<or> isSizeOptionChanged (STATE w)
      then (let w1 = panel (duringSetupCamera e) (emit (SetupCamera (cameraParams (STATE w))) w)
            in case setupCamera e of
                 Rejected err \<Rightarrow> Inl (DeviceError err, w1)
               | Resolved c \<Rightarrow>
                   Inr (setFlag IsSizeOptionChanged False
                         (setFlag IsTargetFPSChanged False (w1\<lparr>camera := Some c\<rparr>))))
      else Inr w)"

text \<open>Lines 93-99, which run without a break: the flag, the cancellation, the disposal.\<close>

definition teardown :: "world \<Rightarrow> world" where
  "teardown w =
     (let w1 = setFlag IsModelChanged True w;
          w2 = emit (CancelAnimationFrame (rafId w1)) w1
      in case detector w2 of None \<Rightarrow> w2 | Some h \<Rightarrow> emit (Dispose h) w2)"

text \<open>Lines 101-103.\<close>

definition applyBackend :: "env \<Rightarrow> world \<Rightarrow> world" where
  "applyBackend e w =
     (if isFlagChanged (STATE w) \<or> isBackendChanged (STATE w)
      then panel (duringSetBackend e)
             (emit (SetBackendAndEnvFlags (flags (STATE w)) (backend (STATE w))) w)
      else w)"

text \<open>
  Lines 105-110. \<open>createDetector\<close> reads \<open>STATE\<close> when it is called; the panel may run
  while the factory's promise is pending.
\<close>

definition construct :: "env \<Rightarrow> world \<Rightarrow> world" where
  "construct e w =
     (case createDetector (STATE w) of
        None \<Rightarrow> (emit (CreateDetector None) w)\<lparr>detector := None\<rparr>
      | Some call \<Rightarrow>
          (let w1 = panel (duringCreate e) (emit (CreateDetector (Some call)) w)
           in case factory e of
                Resolved _ \<Rightarrow>
                  (emit (DetectorReady (nextHandle w1)) w1)
                    \<lparr>detector := Some (nextHandle w1), nextHandle := Suc (nextHandle w1)\<rparr>
              | Rejected err \<Rightarrow> (emit (Alert err) w1)\<lparr>detector := None\<rparr>))"

text \<open>Lines 112-114.\<close>

definition clearFlags :: "world \<Rightarrow> world" where
  "clearFlags w =
     setFlag IsModelChanged False (setFlag IsBackendChanged False (setFlag IsFlagChanged False w))"

text \<open>Lines 92-115.\<close>

definition reconcileModel :: "env \<Rightarrow> world \<Rightarrow> world" where
  "reconcileModel e w =
     (if isModelChanged (STATE w) \<or> isFlagChanged (STATE w) \<or> isBackendChanged (STATE w)
      then clearFlags (construct e (applyBackend e (teardown w)))
      else w)"

definition checkGuiUpdate :: "env \<Rightarrow> world \<Rightarrow> outcome" where
  "checkGuiUpdate e w =
     (case reconcileCapture e w of
        Inl x \<Rightarrow> Inl x
      | Inr w1 \<Rightarrow> Inr (reconcileModel e w1))"

section \<open>renderResult (lines 140-187)\<close>

text \<open>
  Lines 141-147. Reading \<open>camera.video\<close> of an undefined camera throws. When the video
  has no frame yet the function waits for the \<open>loadeddata\<close> callback.
\<close>

definition awaitFrame :: "env \<Rightarrow> world \<Rightarrow> outcome" where
  "awaitFrame e w =
     (case camera w of
        None \<Rightarrow> Inl (TypeError, w)
      | Some c \<Rightarrow>
          if videoReady e then Inr w
          else if loadedData e then Inr (panel (duringFrameWait e) w)
          else Inl (NeverResumes, w))"

text \<open>Lines 149-171: the value of \<open>poses\<close> and the world after the \<open>try\<close>.\<close>

definition inferenceStep :: "env \<Rightarrow> cameraRef \<Rightarrow> world \<Rightarrow> pose list option \<times> world" where
  "inferenceStep e c w =
     (case detector w of
        None \<Rightarrow> (None, w)
      | Some h \<Rightarrow>
          (let w1 = panel (duringEstimate e)
                      (emit (EstimatePoses h c
                         \<lparr>maxPoses = jsget (modelConfig (STATE w)) ''maxPoses'',
                          flipHorizontal = False\<rparr>) w)
           in case estimatePoses e of
                Resolved ps \<Rightarrow> (Some ps, w1)
              | Rejected err \<Rightarrow>
                  (None, (emit (Alert err) (emit (Dispose h) w1))\<lparr>detector := None\<rparr>)))"

text \<open>Lines 173-186.\<close>

definition renderStep :: "cameraRef \<Rightarrow> pose list option \<Rightarrow> world \<Rightarrow> world" where
  "renderStep c poses w =
     (let w1 = (if windowCam w = None then w\<lparr>windowCam := Some c\<rparr> else w);
          w2 = emit (DrawCtx c) w1;
          w3 = (case poses of
                  None \<Rightarrow> w2
                | Some ps \<Rightarrow>
                    if 0 < length ps \<and> \<not> isModelChanged (STATE w2)
                    then emit (DrawIdeal c) (emit (DrawResults c ps) w2)
                    else w2)
      in emit (DrawIndicators c) w3)"

definition renderResult :: "env \<Rightarrow> world \<Rightarrow> outcome" where
  "renderResult e w =
     (case awaitFrame e w of
        Inl x \<Rightarrow> Inl x
      | Inr w1 \<Rightarrow>
          (case camera w1 of
             None \<Rightarrow> Inl (TypeError, w1)
           | Some c \<Rightarrow>
               (case inferenceStep e c w1 of (poses, w2) \<Rightarrow> Inr (renderStep c poses w2))))"

section \<open>renderPrediction (lines 189-197) and app (lines 199-218)\<close>

definition requestAnimationFrame :: "world \<Rightarrow> world" where
  "requestAnimationFrame w =
     (emit (RequestAnimationFrame (nextRafId w)) w)
       \<lparr>rafId := Some (nextRafId w), nextRafId := Suc (nextRafId w)\<rparr>"

text \<open>One tick. The two inner \<open>await\<close>s wait for the module's own functions only.\<close>

definition renderPrediction :: "env \<Rightarrow> world \<Rightarrow> outcome" where
  "renderPrediction e w =
     (case checkGuiUpdate e w of
        Inl x \<Rightarrow> Inl x
      | Inr w1 \<Rightarrow>
          (case (if \<not> isModelChanged (STATE w1) then renderResult e w1 else Inr w1) of
             Inl x \<Rightarrow> Inl x
           | Inr w2 \<Rightarrow> Inr (requestAnimationFrame w2)))"

text \<open>
  The loop: each tick schedules the next one as its last action, so the ticks run one
  after the other, one environment each, until a tick does not reach that action. The
  list is any finite stretch of the run.
\<close>

fun run :: "env list \<Rightarrow> world \<Rightarrow> outcome" where
  "run [] w = Inr w"
| "run (e # es) w =
     (case renderPrediction e w of
        Inl x \<Rightarrow> Inl x
      | Inr w1 \<Rightarrow> run es (panel (beforeNextFrame e) w1))"

text \<open>
  \<open>app\<close>: the query string as its list of keys and values, the environment of the
  start-up, and the environments of the ticks that follow the call of line 217.
\<close>

definition app :: "(string \<times> string) list \<Rightarrow> env \<Rightarrow> env list \<Rightarrow> world \<Rightarrow> outcome" where
  "app urlParams e ticks w =
     (if ''model'' \<notin> set (map fst urlParams)
      then Inr (emit (Alert ''Cannot find model in the query string.'') w)
      else
        (let w1 = panel (duringSetupDatGui e) (emit SetupDatGui w);
             w2 = panel (duringSetupCamera e) (emit (SetupCamera (cameraParams (STATE w1))) w1)
         in case setupCamera e of
              Rejected err \<Rightarrow> Inl (DeviceError err, w2)
            | Resolved c \<Rightarrow>
                (let w3 = panel (duringSetBackend e)
                            (emit (SetBackendAndEnvFlags (flags (STATE w2)) (backend (STATE w2)))
                               (w2\<lparr>camera := Some c\<rparr>))
                 in case createDetector (STATE w3) of
                      None \<Rightarrow> run ticks ((emit (CreateDetector None) w3)\<lparr>detector := None\<rparr>)
                    | Some call \<Rightarrow>
                        (let w4 = panel (duringCreate e) (emit (CreateDetector (Some call)) w3)
                         in case factory e of
                              Rejected err \<Rightarrow> Inl (LoadError err, w4)
                            | Resolved _ \<Rightarrow>
                                run ticks
                                  ((emit (DetectorReady (nextHandle w4)) w4)
                                     \<lparr>detector := Some (nextHandle w4),
                                      nextHandle := Suc (nextHandle w4)\<rparr>)))))"

definition final :: "outcome \<Rightarrow> world" where
  "final r = (case r of Inl (f, w) \<Rightarrow> w | Inr w \<Rightarrow> w)"

text \<open>The module as loaded: nothing assigned, nothing done yet.\<close>

definition world0 :: "state \<Rightarrow> world" where
  "world0 s =
     \<lparr>STATE = s, detector = None, camera = None, rafId = None, windowCam = None,
      trace = [], nextHandle = 0, nextRafId = 0\<rparr>"

section \<open>Detector handles along a trace\<close>

text \<open>
  A handle is alive from the moment the factory's promise resolves with it until it is
  disposed. \<open>alive tr\<close> is the set of handles alive after the actions \<open>tr\<close>.
\<close>

fun liveStep :: "handle set \<Rightarrow> event \<Rightarrow> handle set" where
  "liveStep S (DetectorReady h) = insert h S"
| "liveStep S (Dispose h) = S - {h}"
| "liveStep S _ = S"

definition alive :: "event list \<Rightarrow> handle set" where
  "alive tr = foldl liveStep {} tr"

text \<open>
  The discipline on handles, checked action by action from the set \<open>S\<close> of handles alive
  at the start: a construction is begun and completed only while no handle is alive, and
  only a live handle is disposed or asked for poses.
\<close>

fun disciplined :: "handle set \<Rightarrow> event list \<Rightarrow> bool" where
  "disciplined S [] = True"
| "disciplined S (ev # evs) =
     ((case ev of
         DetectorReady h \<Rightarrow> S = {}
       | Dispose h \<Rightarrow> h \<in> S
       | EstimatePoses h c cfg \<Rightarrow> h \<in> S
       | CreateDetector call \<Rightarrow> S = {}
       | _ \<Rightarrow> True)
      \<and> disciplined (liveStep S ev) evs)"

text \<open>
  At the points where no reconciliation is under way the variable \<open>detector\<close> is empty
  when no handle is alive, and otherwise names the one live handle.
\<close>

definition consistent :: "world \<Rightarrow> bool" where
  "consistent w = (disciplined {} (trace w) \<and> alive (trace w) = set_option (detector w))"

section \<open>Concrete configurations, surroundings and states\<close>

definition scenarioA :: state where
  "scenarioA =
     \<lparr>model = MoveNet, backend = ''tfjs-webgl'', flags = Map.empty, cameraParams = Map.empty,
      modelConfig = [''type'' \<mapsto> JStr ''lightning'', ''customModel'' \<mapsto> JStr ''''],
      isModelChanged = False, isFlagChanged = False, isBackendChanged = False,
      isTargetFPSChanged = False, isSizeOptionChanged = False\<rparr>"

definition scenarioB :: state where
  "scenarioB = scenarioA\<lparr>modelConfig :=
     [''type'' \<mapsto> JStr ''thunder'', ''customModel'' \<mapsto> JStr ''https://x/model.json'']\<rparr>"


definition calm :: env where
  "calm =
     \<lparr>duringSetupDatGui = (\<lambda>s. s), setupCamera = Resolved 7, duringSetupCamera = (\<lambda>s. s),
      duringSetBackend = (\<lambda>s. s), factory = Resolved (), duringCreate = (\<lambda>s. s),
      videoReady = True, loadedData = True, duringFrameWait = (\<lambda>s. s),
      estimatePoses = Resolved [1], duringEstimate = (\<lambda>s. s), beforeNextFrame = (\<lambda>s. s)\<rparr>"

definition query :: "(string \<times> string) list" where
  "query = [(''model'', ''movenet'')]"

definition running :: world where
  "running =
     \<lparr>STATE = scenarioA, detector = Some 0, camera = Some 7, rafId = None, windowCam = None,
      trace =
        [SetupDatGui, SetupCamera Map.empty, SetBackendAndEnvFlags Map.empty ''tfjs-webgl'',
         CreateDetector (Some (MoveNet, MoveNetOptions (Some SINGLEPOSE_LIGHTNING) None)),
         DetectorReady 0],
      nextHandle = 1, nextRafId = 0\<rparr>"

definition reselected :: world where
  "reselected = panel (\<lambda>s. s\<lparr>isModelChanged := True\<rparr>) running"

definition cameraFails :: env where
  "cameraFails = calm\<lparr>setupCamera := Rejected ''NotFoundError''\<rparr>"

definition resized :: world where
  "resized = panel (\<lambda>s. s\<lparr>isSizeOptionChanged := True, isModelChanged := True\<rparr>) running"

definition reselectsDuringEstimate :: env where
  "reselectsDuringEstimate = calm\<lparr>duringEstimate := (\<lambda>s. s\<lparr>isModelChanged := True\<rparr>)\<rparr>"

definition factoryFails :: env where
  "factoryFails = calm\<lparr>factory := Rejected ''404''\<rparr>"

definition estimateFails :: env where
  "estimateFails = calm\<lparr>estimatePoses := Rejected ''bad output''\<rparr>"

definition mirrored :: world where
  "mirrored = running\<lparr>STATE := scenarioA\<lparr>modelConfig :=
     [''type'' \<mapsto> JStr ''lightning'', ''customModel'' \<mapsto> JStr [],
      ''maxPoses'' \<mapsto> JNum 1, ''flipHorizontal'' \<mapsto> JBool True]\<rparr>\<rparr>"

section \<open>Factory options for MoveNet and the BlazePose fall-through\<close>

text \<open>
  Claim C8. With MoveNet selected, type "lightning" gives \<open>SINGLEPOSE_LIGHTNING\<close> and
  type "thunder" gives \<open>SINGLEPOSE_THUNDER\<close>; the options have a \<open>modelUrl\<close> field, equal
  to the configured custom model string, exactly when that string is not empty.
\<close>

theorem C8_movenet_options:
  assumes "model s = MoveNet"
    and "jsget (modelConfig s) ''customModel'' = JStr url"
  shows "\<exists>modelType.
           createDetector s =
             Some (MoveNet, MoveNetOptions modelType (if url = [] then None else Some (JStr url)))
         \<and> (jsget (modelConfig s) ''type'' = JStr ''lightning''
              \<longrightarrow> modelType = Some SINGLEPOSE_LIGHTNING)
         \<and> (jsget (modelConfig s) ''type'' = JStr ''thunder''
              \<longrightarrow> modelType = Some SINGLEPOSE_THUNDER)"
  using assms by (auto simp: createDetector_def moveNetCase_def moveNetModelType_def)

theorem C8_witness_scenarioA:
  "model scenarioA = MoveNet
   \<and> jsget (modelConfig scenarioA) ''customModel'' = JStr []
   \<and> jsget (modelConfig scenarioA) ''type'' = JStr ''lightning''
   \<and> createDetector scenarioA = Some (MoveNet, MoveNetOptions (Some SINGLEPOSE_LIGHTNING) None)"
proof -
  have h: "model scenarioA = MoveNet" "jsget (modelConfig scenarioA) ''customModel'' = JStr []"
    and ty: "jsget (modelConfig scenarioA) ''type'' = JStr ''lightning''"
    by (simp_all add: scenarioA_def jsget_def)
  from C8_movenet_options [OF h] ty h show ?thesis by auto
qed

lemma scenarioB_factory_call:
  "createDetector scenarioB =
     Some (MoveNet, MoveNetOptions (Some SINGLEPOSE_THUNDER) (Some (JStr ''https://x/model.json'')))"
  by (simp add: scenarioB_def scenarioA_def createDetector_def moveNetCase_def
      moveNetModelType_def jsget_def)



section \<open>At most one live detector handle\<close>

lemma disciplined_append:
  "disciplined S (xs @ ys) = (disciplined S xs \<and> disciplined (foldl liveStep S xs) ys)"
  by (induction xs arbitrary: S) auto

lemma liveStep_card:
  "card S \<le> 1 \<Longrightarrow> disciplined S [ev] \<Longrightarrow> card (liveStep S ev) \<le> 1"
  by (cases ev) (auto simp: card_Diff_singleton intro: le_trans[OF diff_le_self])

lemma disciplined_card:
  "disciplined S tr \<Longrightarrow> card S \<le> 1 \<Longrightarrow> card (foldl liveStep S (take n tr)) \<le> 1"
proof (induction tr arbitrary: S n)
  case Nil then show ?case by simp
next
  case (Cons ev evs)
  show ?case
  proof (cases n)
    case 0 with Cons.prems show ?thesis by simp
  next
    case (Suc m)
    have "card (liveStep S ev) \<le> 1" using Cons.prems by (intro liveStep_card) auto
    with Cons Suc show ?thesis by simp
  qed
qed

lemma disciplined_estimate:
  "disciplined S tr \<Longrightarrow> n < length tr \<Longrightarrow> tr ! n = EstimatePoses h c cfg
     \<Longrightarrow> h \<in> foldl liveStep S (take n tr)"
proof (induction tr arbitrary: S n)
  case Nil then show ?case by simp
next
  case (Cons ev evs)
  then show ?case by (cases n) auto
qed

lemma consistent_panel [simp]: "consistent (panel f w) = consistent w"
  by (simp add: consistent_def panel_def)

lemma consistent_setFlag [simp]: "consistent (setFlag fl b w) = consistent w"
  by (simp add: consistent_def setFlag_def emit_def disciplined_append alive_def)

lemma consistent_reconcileCapture:
  "consistent w \<Longrightarrow> consistent (final (reconcileCapture e w))"
  by (auto simp: reconcileCapture_def final_def Let_def consistent_def emit_def panel_def setFlag_def disciplined_append alive_def split: settled.splits)

lemma consistent_reconcileModel:
  "consistent w \<Longrightarrow> consistent (reconcileModel e w)"
  by (auto simp: reconcileModel_def clearFlags_def construct_def applyBackend_def teardown_def Let_def consistent_def emit_def panel_def setFlag_def disciplined_append alive_def split: settled.splits option.splits)

lemma consistent_renderResult:
  "consistent w \<Longrightarrow> consistent (final (renderResult e w))"
  by (auto simp: renderResult_def awaitFrame_def inferenceStep_def renderStep_def final_def Let_def consistent_def emit_def panel_def  disciplined_append alive_def split: settled.splits option.splits)

lemma disciplined_construct:
  "disciplined S tr \<Longrightarrow> n < length tr
     \<Longrightarrow> tr ! n = CreateDetector call \<or> tr ! n = DetectorReady h
     \<Longrightarrow> foldl liveStep S (take n tr) = {}"
proof (induction tr arbitrary: S n)
  case Nil then show ?case by simp
next
  case (Cons ev evs)
  then show ?case by (cases n) auto
qed

lemma consistent_requestAnimationFrame [simp]:
  "consistent (requestAnimationFrame w) = consistent w"
  by (simp add: consistent_def requestAnimationFrame_def emit_def disciplined_append alive_def)

lemma consistent_checkGuiUpdate:
  assumes "consistent w"
  shows "consistent (final (checkGuiUpdate e w))"
proof (cases "reconcileCapture e w")
  case (Inl x)
  with consistent_reconcileCapture [OF assms, of e] show ?thesis
    by (simp add: checkGuiUpdate_def final_def)
next
  case (Inr w1)
  with consistent_reconcileCapture [OF assms, of e] have "consistent w1"
    by (simp add: final_def)
  then have "consistent (reconcileModel e w1)" by (rule consistent_reconcileModel)
  with Inr show ?thesis by (simp add: checkGuiUpdate_def final_def)
qed

lemma consistent_renderPrediction:
  assumes "consistent w"
  shows "consistent (final (renderPrediction e w))"
proof (cases "checkGuiUpdate e w")
  case (Inl x)
  with consistent_checkGuiUpdate [OF assms, of e] show ?thesis
    by (simp add: renderPrediction_def final_def)
next
  case (Inr w1)
  with consistent_checkGuiUpdate [OF assms, of e] have c1: "consistent w1"
    by (simp add: final_def)
  show ?thesis
  proof (cases "isModelChanged (STATE w1)")
    case True
    with Inr c1 show ?thesis by (simp add: renderPrediction_def final_def)
  next
    case False
    from consistent_renderResult [OF c1, of e] Inr False show ?thesis
      by (cases "renderResult e w1") (auto simp: renderPrediction_def final_def)
  qed
qed

lemma consistent_run:
  "consistent w \<Longrightarrow> consistent (final (run es w))"
proof (induction es arbitrary: w)
  case Nil
  then show ?case by (simp add: final_def)
next
  case (Cons e es)
  show ?case
  proof (cases "renderPrediction e w")
    case (Inl x)
    with consistent_renderPrediction [OF Cons.prems, of e] show ?thesis by (simp add: final_def)
  next
    case (Inr w1)
    with consistent_renderPrediction [OF Cons.prems, of e] have "consistent w1"
      by (simp add: final_def)
    then have "consistent (final (run es (panel (beforeNextFrame e) w1)))"
      by (intro Cons.IH) simp
    with Inr show ?thesis by simp
  qed
qed

lemma consistent_world0: "consistent (world0 s)"
  by (simp add: consistent_def world0_def alive_def)

lemma final_simps [simp]: "final (Inl (f, w)) = w" "final (Inr w) = w"
  by (simp_all add: final_def)

lemma consistent_app:
  assumes "consistent w" and "detector w = None"
  shows "consistent (final (app q e ticks w))"
proof -
  from assms have tr: "disciplined {} (trace w)" "foldl liveStep {} (trace w) = {}"
    by (simp_all add: consistent_def alive_def)
  show ?thesis
    unfolding app_def Let_def
    apply (simp split: settled.splits option.splits)
    apply (intro conjI impI allI consistent_run)
    apply (simp_all add: consistent_def emit_def panel_def disciplined_append alive_def tr assms(2))
    done
qed

text \<open>
  Claim C1, as the code has it. In every run of the module from its loading, whatever
  the query string, the collaborators and the control panel do: at every instant at most
  one handle is alive; a construction is begun only when no handle is alive, the earlier
  one having been disposed; poses are only ever asked of a live handle; and where the
  stretch of the run ends, the variable \<open>detector\<close> is empty or names the one live handle.
\<close>

theorem C1_one_live_handle:
  fixes urlParams e ticks s
  defines "wend \<equiv> final (app urlParams e ticks (world0 s))"
  shows "(\<forall>n. card (alive (take n (trace wend))) \<le> 1)
       \<and> (\<forall>n call. n < length (trace wend) \<and> trace wend ! n = CreateDetector call
             \<longrightarrow> alive (take n (trace wend)) = {})
       \<and> (\<forall>n h c cfg. n < length (trace wend) \<and> trace wend ! n = EstimatePoses h c cfg
             \<longrightarrow> h \<in> alive (take n (trace wend)))
       \<and> alive (trace wend) = set_option (detector wend)"
proof -
  have "consistent wend"
    unfolding wend_def by (rule consistent_app [OF consistent_world0]) (simp add: world0_def)
  then have d: "disciplined {} (trace wend)" and a: "alive (trace wend) = set_option (detector wend)"
    by (simp_all add: consistent_def)
  have "card (alive (take n (trace wend))) \<le> 1" for n
    using disciplined_card [OF d, of n] by (simp add: alive_def)
  moreover have "alive (take n (trace wend)) = {}"
    if "n < length (trace wend)" "trace wend ! n = CreateDetector call" for n call
    using disciplined_construct [OF d that(1), of call] that(2) by (simp add: alive_def)
  moreover have "h \<in> alive (take n (trace wend))"
    if "n < length (trace wend)" "trace wend ! n = EstimatePoses h c cfg" for n h c cfg
    using disciplined_estimate [OF d that] by (simp add: alive_def)
  ultimately show ?thesis using a by blast
qed

section \<open>Concrete runs\<close>

text \<open>The equations that evaluate a run on given surroundings.\<close>

lemmas model_defs = app_def renderPrediction_def checkGuiUpdate_def reconcileCapture_def
  reconcileModel_def teardown_def applyBackend_def construct_def clearFlags_def renderResult_def
  awaitFrame_def inferenceStep_def renderStep_def requestAnimationFrame_def emit_def panel_def
  setFlag_def writeFlag_def createDetector_def moveNetCase_def moveNetModelType_def jsget_def
  world0_def final_def Let_def

lemma running_reached: "app query calm [] (world0 scenarioA) = Inr running"
  by (simp add: model_defs calm_def query_def scenarioA_def running_def)

theorem C1_witness:
  "trace (final (app query calm [calm] (world0 scenarioA))) ! 5
     = EstimatePoses 0 7 \<lparr>maxPoses = JUndefined, flipHorizontal = False\<rparr>
   \<and> 0 \<in> alive (take 5 (trace (final (app query calm [calm] (world0 scenarioA)))))
   \<and> card (alive (take 5 (trace (final (app query calm [calm] (world0 scenarioA)))))) \<le> 1"
proof -
  let ?tr = "trace (final (app query calm [calm] (world0 scenarioA)))"
  have tr: "?tr =
      [SetupDatGui, SetupCamera Map.empty, SetBackendAndEnvFlags Map.empty ''tfjs-webgl'',
       CreateDetector (Some (MoveNet, MoveNetOptions (Some SINGLEPOSE_LIGHTNING) None)),
       DetectorReady 0,
       EstimatePoses 0 7 \<lparr>maxPoses = JUndefined, flipHorizontal = False\<rparr>,
       DrawCtx 7, DrawResults 7 [1], DrawIdeal 7, DrawIndicators 7, RequestAnimationFrame 0]"
    by (simp add: model_defs calm_def query_def scenarioA_def)
  have at5: "5 < length ?tr"
    "?tr ! 5 = EstimatePoses 0 7 \<lparr>maxPoses = JUndefined, flipHorizontal = False\<rparr>"
    by (simp_all only: tr) simp_all
  from C1_one_live_handle [of query calm "[calm]" scenarioA] at5
  show ?thesis by blast
qed

text \<open>
  Claim C1 as stated fails in one point: the reference is not cleared when the handle is
  disposed. After the start-up the user picks another model; at the moment the new
  construction is begun, \<open>detector\<close> still names handle 0, which is no longer alive.
\<close>

theorem C1_counterexample:
  "detector reselected = Some 0
   \<and> reconcileModel calm reselected
       = clearFlags (construct calm (applyBackend calm (teardown reselected)))
   \<and> detector (applyBackend calm (teardown reselected)) = Some 0
   \<and> 0 \<notin> alive (trace (applyBackend calm (teardown reselected)))"
  by (simp add: reselected_def running_def scenarioA_def calm_def reconcileModel_def teardown_def
      applyBackend_def setFlag_def writeFlag_def emit_def panel_def alive_def Let_def)

section \<open>The model branch of the reconciliation\<close>

lemma gate_after_checkGuiUpdate:
  "checkGuiUpdate e w = Inr w1 \<Longrightarrow> \<not> isModelChanged (STATE w1)"
  by (auto simp: checkGuiUpdate_def reconcileModel_def clearFlags_def setFlag_def writeFlag_def
      emit_def split: sum.splits if_splits)

text \<open>
  Claim C2, as the code has it. When the step reaches line 92 (the camera set-up of
  lines 86-90, if it ran, has resolved) with one of the three flags set, it performs in
  this order: the write of \<open>isModelChanged := true\<close>, which is the in-progress gate; the
  cancellation of the scheduled callback; the disposal of the detector if there is one;
  the call of \<open>setBackendAndEnvFlags\<close> when \<open>isFlagChanged\<close> or \<open>isBackendChanged\<close> is
  set; the call of \<open>createDetector\<close>; and, the construction settled, the clearing of the
  three flags. When the construction succeeded, \<open>detector\<close> is the new handle and the
  three flags are false.
\<close>

theorem C2_model_branch_in_order:
  assumes "reconcileCapture e w = Inr w1"
    and "isModelChanged (STATE w1) \<or> isFlagChanged (STATE w1) \<or> isBackendChanged (STATE w1)"
  shows "\<exists>w'. checkGuiUpdate e w = Inr w'
     \<and> trace w' = trace w1
         @ [SetFlag IsModelChanged True, CancelAnimationFrame (rafId w1)]
         @ (case detector w1 of None \<Rightarrow> [] | Some h \<Rightarrow> [Dispose h])
         @ (if isFlagChanged (STATE w1) \<or> isBackendChanged (STATE w1)
            then [SetBackendAndEnvFlags (flags (STATE w1)) (backend (STATE w1))] else [])
         @ [CreateDetector (createDetector (STATE (applyBackend e (teardown w1))))]
         @ (case createDetector (STATE (applyBackend e (teardown w1))) of
              None \<Rightarrow> []
            | Some call \<Rightarrow>
                (case factory e of
                   Resolved u \<Rightarrow> [DetectorReady (nextHandle w1)]
                 | Rejected err \<Rightarrow> [Alert err]))
         @ [SetFlag IsFlagChanged False, SetFlag IsBackendChanged False,
            SetFlag IsModelChanged False]
     \<and> (createDetector (STATE (applyBackend e (teardown w1))) \<noteq> None \<and> factory e = Resolved ()
          \<longrightarrow> detector w' = Some (nextHandle w1)
              \<and> \<not> isModelChanged (STATE w') \<and> \<not> isFlagChanged (STATE w')
              \<and> \<not> isBackendChanged (STATE w'))"
proof -
  let ?w4 = "applyBackend e (teardown w1)"
  have run: "checkGuiUpdate e w = Inr (clearFlags (construct e ?w4))"
    using assms by (simp add: checkGuiUpdate_def reconcileModel_def)
  have t3: "trace (teardown w1) = trace w1
         @ [SetFlag IsModelChanged True, CancelAnimationFrame (rafId w1)]
         @ (case detector w1 of None \<Rightarrow> [] | Some h \<Rightarrow> [Dispose h])"
    by (simp add: teardown_def setFlag_def emit_def Let_def split: option.splits)
  have s3: "isFlagChanged (STATE (teardown w1)) = isFlagChanged (STATE w1)"
    "isBackendChanged (STATE (teardown w1)) = isBackendChanged (STATE w1)"
    "flags (STATE (teardown w1)) = flags (STATE w1)"
    "backend (STATE (teardown w1)) = backend (STATE w1)"
    "nextHandle (teardown w1) = nextHandle w1"
    by (simp_all add: teardown_def setFlag_def writeFlag_def emit_def Let_def split: option.splits)
  have t4: "trace ?w4 = trace (teardown w1)
         @ (if isFlagChanged (STATE w1) \<or> isBackendChanged (STATE w1)
            then [SetBackendAndEnvFlags (flags (STATE w1)) (backend (STATE w1))] else [])"
    and n4: "nextHandle ?w4 = nextHandle w1"
    by (simp_all add: applyBackend_def emit_def panel_def s3)
  have t5: "trace (construct e ?w4) = trace ?w4
         @ [CreateDetector (createDetector (STATE ?w4))]
         @ (case createDetector (STATE ?w4) of
              None \<Rightarrow> []
            | Some call \<Rightarrow>
                (case factory e of
                   Resolved u \<Rightarrow> [DetectorReady (nextHandle w1)]
                 | Rejected err \<Rightarrow> [Alert err]))"
    by (simp add: construct_def emit_def panel_def Let_def n4 split: option.splits settled.splits)
  have t6: "trace (clearFlags x) = trace x
         @ [SetFlag IsFlagChanged False, SetFlag IsBackendChanged False,
            SetFlag IsModelChanged False]" for x
    by (simp add: clearFlags_def setFlag_def emit_def)
  have cleared: "\<not> isModelChanged (STATE (clearFlags x)) \<and> \<not> isFlagChanged (STATE (clearFlags x))
      \<and> \<not> isBackendChanged (STATE (clearFlags x))" for x
    by (simp add: clearFlags_def setFlag_def writeFlag_def emit_def)
  have det: "detector (clearFlags (construct e ?w4)) = Some (nextHandle w1)"
    if "createDetector (STATE ?w4) \<noteq> None" "factory e = Resolved ()"
    using that by (auto simp: clearFlags_def setFlag_def emit_def construct_def panel_def Let_def n4)
  show ?thesis
    using run t3 t4 t5 t6 cleared det by simp
qed

theorem C2_witness:
  "reconcileCapture calm reselected = Inr reselected
   \<and> isModelChanged (STATE reselected)
   \<and> trace (final (checkGuiUpdate calm reselected)) = trace reselected @
       [SetFlag IsModelChanged True, CancelAnimationFrame None, Dispose 0,
        CreateDetector (Some (MoveNet, MoveNetOptions (Some SINGLEPOSE_LIGHTNING) None)),
        DetectorReady 1,
        SetFlag IsFlagChanged False, SetFlag IsBackendChanged False, SetFlag IsModelChanged False]"
proof -
  have h1: "reconcileCapture calm reselected = Inr reselected"
    by (simp add: reconcileCapture_def reselected_def running_def scenarioA_def panel_def)
  have h2: "isModelChanged (STATE reselected) \<or> isFlagChanged (STATE reselected)
      \<or> isBackendChanged (STATE reselected)"
    by (simp add: reselected_def panel_def)
  have st: "STATE (applyBackend calm (teardown reselected)) = scenarioA\<lparr>isModelChanged := True\<rparr>"
    by (simp add: reselected_def running_def scenarioA_def calm_def teardown_def applyBackend_def
        setFlag_def writeFlag_def emit_def panel_def Let_def)
  have cd: "createDetector (scenarioA\<lparr>isModelChanged := True\<rparr>)
      = Some (MoveNet, MoveNetOptions (Some SINGLEPOSE_LIGHTNING) None)"
    by (simp add: scenarioA_def createDetector_def moveNetCase_def moveNetModelType_def jsget_def)
  from C2_model_branch_in_order [OF h1 h2] obtain w' where
    "checkGuiUpdate calm reselected = Inr w'" and
    "trace w' = trace reselected
         @ [SetFlag IsModelChanged True, CancelAnimationFrame (rafId reselected)]
         @ (case detector reselected of None \<Rightarrow> [] | Some h \<Rightarrow> [Dispose h])
         @ (if isFlagChanged (STATE reselected) \<or> isBackendChanged (STATE reselected)
            then [SetBackendAndEnvFlags (flags (STATE reselected)) (backend (STATE reselected))]
            else [])
         @ [CreateDetector (createDetector (STATE (applyBackend calm (teardown reselected))))]
         @ (case createDetector (STATE (applyBackend calm (teardown reselected))) of
              None \<Rightarrow> []
            | Some call \<Rightarrow>
                (case factory calm of
                   Resolved u \<Rightarrow> [DetectorReady (nextHandle reselected)]
                 | Rejected err \<Rightarrow> [Alert err]))
         @ [SetFlag IsFlagChanged False, SetFlag IsBackendChanged False,
            SetFlag IsModelChanged False]"
    by blast
  then have "trace (final (checkGuiUpdate calm reselected)) = trace reselected @
       [SetFlag IsModelChanged True, CancelAnimationFrame None, Dispose 0,
        CreateDetector (Some (MoveNet, MoveNetOptions (Some SINGLEPOSE_LIGHTNING) None)),
        DetectorReady 1,
        SetFlag IsFlagChanged False, SetFlag IsBackendChanged False, SetFlag IsModelChanged False]"
    by (simp add: st cd final_def) (simp add: reselected_def running_def panel_def scenarioA_def calm_def)
  with h1 show ?thesis by (simp add: reselected_def panel_def)
qed

text \<open>
  Claim C2 as stated fails when the same step also sets the camera up again and that
  rejects: the flag is set at the start of the step, and the step ends at line 87 with
  the gate not set to true by it, nothing cancelled, the detector not disposed and no
  construction begun.
\<close>

theorem C2_counterexample:
  "isModelChanged (STATE resized)
   \<and> checkGuiUpdate cameraFails resized
       = Inl (DeviceError ''NotFoundError'', emit (SetupCamera Map.empty) resized)
   \<and> trace (emit (SetupCamera Map.empty) resized) = trace running @ [SetupCamera Map.empty]
   \<and> isModelChanged (STATE (emit (SetupCamera Map.empty) resized))
   \<and> detector (emit (SetupCamera Map.empty) resized) = Some 0"
  by (simp add: resized_def running_def scenarioA_def cameraFails_def calm_def checkGuiUpdate_def
      reconcileCapture_def emit_def panel_def Let_def)

section \<open>Rendering\<close>

lemma awaitFrame_resumes:
  assumes "camera w = Some c" and "videoReady e \<or> loadedData e"
  shows "\<exists>w1. awaitFrame e w = Inr w1 \<and> camera w1 = Some c \<and> detector w1 = detector w
           \<and> trace w1 = trace w \<and> nextRafId w1 = nextRafId w"
  using assms by (cases "videoReady e") (simp_all add: awaitFrame_def panel_def)

text \<open>
  Claim C3, as the code has it. A call of \<open>renderResult\<close> with a camera, whose wait for
  the first frame ends, draws the frame and the indicators whatever the inference gave;
  it draws the poses exactly when the result is not null, not empty, and
  \<open>STATE.isModelChanged\<close> is false when line 181 reads it, that is after the inference
  has settled.
\<close>

theorem C3_overlay_at_render_time:
  assumes "camera w = Some c" and "videoReady e \<or> loadedData e"
  shows "\<exists>w1 poses w2 w'.
           awaitFrame e w = Inr w1 \<and> inferenceStep e c w1 = (poses, w2)
         \<and> renderResult e w = Inr w'
         \<and> trace w' = trace w2 @ [DrawCtx c]
             @ (case poses of
                  None \<Rightarrow> []
                | Some ps \<Rightarrow>
                    if ps \<noteq> [] \<and> \<not> isModelChanged (STATE w2)
                    then [DrawResults c ps, DrawIdeal c] else [])
             @ [DrawIndicators c]"
proof -
  obtain w1 where w1: "awaitFrame e w = Inr w1" "camera w1 = Some c"
    using awaitFrame_resumes [OF assms] by blast
  obtain poses w2 where inf: "inferenceStep e c w1 = (poses, w2)"
    by (cases "inferenceStep e c w1")
  have "trace (renderStep c poses w2) = trace w2 @ [DrawCtx c]
             @ (case poses of
                  None \<Rightarrow> []
                | Some ps \<Rightarrow>
                    if ps \<noteq> [] \<and> \<not> isModelChanged (STATE w2)
                    then [DrawResults c ps, DrawIdeal c] else [])
             @ [DrawIndicators c]"
    by (simp add: renderStep_def emit_def Let_def split: option.splits)
  moreover have "renderResult e w = Inr (renderStep c poses w2)"
    by (simp add: renderResult_def w1 inf)
  ultimately show ?thesis using w1 inf by blast
qed

text \<open>
  Claim C3 as stated fails: the gate is false when the inference is dispatched, the
  result is one pose, the user picks another model while \<open>estimatePoses\<close> is pending,
  and the poses are not drawn.
\<close>

theorem C3_counterexample:
  "\<not> isModelChanged (STATE running)
   \<and> awaitFrame reselectsDuringEstimate running = Inr running
   \<and> fst (inferenceStep reselectsDuringEstimate 7 running) = Some [1]
   \<and> trace (final (renderResult reselectsDuringEstimate running)) = trace running @
       [EstimatePoses 0 7 \<lparr>maxPoses = JUndefined, flipHorizontal = False\<rparr>,
        DrawCtx 7, DrawIndicators 7]"
  by (simp add: running_def scenarioA_def reselectsDuringEstimate_def calm_def renderResult_def
      awaitFrame_def inferenceStep_def renderStep_def emit_def panel_def jsget_def final_def Let_def)

theorem C3_witness:
  "camera running = Some 7
   \<and> trace (final (renderResult calm running)) = trace running @
       [EstimatePoses 0 7 \<lparr>maxPoses = JUndefined, flipHorizontal = False\<rparr>,
        DrawCtx 7, DrawResults 7 [1], DrawIdeal 7, DrawIndicators 7]"
proof -
  have h1: "camera running = Some 7" by (simp add: running_def)
  have h2: "videoReady calm \<or> loadedData calm" by (simp add: calm_def)
  have aw: "awaitFrame calm running = Inr running"
    by (simp add: awaitFrame_def running_def calm_def)
  have inf: "inferenceStep calm 7 running =
      (Some [1], emit (EstimatePoses 0 7 \<lparr>maxPoses = JUndefined, flipHorizontal = False\<rparr>) running)"
    by (simp add: inferenceStep_def running_def scenarioA_def calm_def emit_def panel_def jsget_def
        Let_def)
  from C3_overlay_at_render_time [OF h1 h2] aw inf
  have "trace (final (renderResult calm running)) =
      trace (emit (EstimatePoses 0 7 \<lparr>maxPoses = JUndefined, flipHorizontal = False\<rparr>) running)
        @ [DrawCtx 7]
        @ (if \<not> isModelChanged
                  (STATE (emit (EstimatePoses 0 7 \<lparr>maxPoses = JUndefined, flipHorizontal = False\<rparr>)
                     running))
           then [DrawResults 7 [1], DrawIdeal 7] else [])
        @ [DrawIndicators 7]"
    by (auto simp: final_def)
  then show ?thesis
    by (simp add: h1) (simp add: emit_def running_def scenarioA_def)
qed

lemma renderResult_without_detector:
  assumes "camera w = Some c" and "videoReady e \<or> loadedData e" and "detector w = None"
  shows "\<exists>w'. renderResult e w = Inr w' \<and> trace w' = trace w @ [DrawCtx c, DrawIndicators c]
           \<and> detector w' = None \<and> nextRafId w' = nextRafId w"
proof -
  from awaitFrame_resumes [OF assms(1,2)] obtain w1 where
    w1: "awaitFrame e w = Inr w1" "camera w1 = Some c" "detector w1 = detector w"
      "trace w1 = trace w" "nextRafId w1 = nextRafId w"
    by blast
  then show ?thesis
    using assms(3)
    by (simp add: renderResult_def inferenceStep_def renderStep_def emit_def Let_def)
qed

section \<open>A failing construction\<close>

text \<open>
  Claim C4. In a reconciliation step whose construction of the detector fails (the
  factory is called and its promise rejects), the reference is set to null, the error is
  shown by \<open>alert\<close>, and the three flags, the in-progress gate among them, are cleared all
  the same: the step returns. The tick goes on to draw the frame and the indicators with
  no poses, and schedules the next tick.
\<close>

theorem C4_construction_failure:
  assumes "reconcileCapture e w = Inr w1"
    and "isModelChanged (STATE w1) \<or> isFlagChanged (STATE w1) \<or> isBackendChanged (STATE w1)"
    and "createDetector (STATE (applyBackend e (teardown w1))) = Some call"
    and "factory e = Rejected err"
  shows "\<exists>w'. checkGuiUpdate e w = Inr w'
         \<and> detector w' = None
         \<and> trace w' = trace (applyBackend e (teardown w1)) @
             [CreateDetector (Some call), Alert err,
              SetFlag IsFlagChanged False, SetFlag IsBackendChanged False,
              SetFlag IsModelChanged False]
         \<and> \<not> isModelChanged (STATE w')
         \<and> (\<forall>c. camera w1 = Some c \<and> (videoReady e \<or> loadedData e) \<longrightarrow>
               (\<exists>w''. renderPrediction e w = Inr w'' \<and> detector w'' = None
                  \<and> trace w'' = trace w' @
                      [DrawCtx c, DrawIndicators c, RequestAnimationFrame (nextRafId w1)]))"
proof -
  let ?w4 = "applyBackend e (teardown w1)"
  let ?w' = "clearFlags (construct e ?w4)"
  have run: "checkGuiUpdate e w = Inr ?w'"
    using assms(1,2) by (simp add: checkGuiUpdate_def reconcileModel_def)
  have con: "detector (construct e ?w4) = None"
    "trace (construct e ?w4) = trace ?w4 @ [CreateDetector (Some call), Alert err]"
    "camera (construct e ?w4) = camera ?w4" "nextRafId (construct e ?w4) = nextRafId ?w4"
    using assms(3,4) by (simp_all add: construct_def emit_def panel_def Let_def)
  have keep: "camera ?w4 = camera w1" "nextRafId ?w4 = nextRafId w1"
    by (simp_all add: applyBackend_def teardown_def setFlag_def emit_def panel_def Let_def
        split: option.splits)
  have clr: "detector (clearFlags x) = detector x" "camera (clearFlags x) = camera x"
    "nextRafId (clearFlags x) = nextRafId x"
    "trace (clearFlags x) = trace x @
       [SetFlag IsFlagChanged False, SetFlag IsBackendChanged False, SetFlag IsModelChanged False]"
    "\<not> isModelChanged (STATE (clearFlags x))" for x
    by (simp_all add: clearFlags_def setFlag_def writeFlag_def emit_def)
  have resumes: "\<exists>w''. renderPrediction e w = Inr w'' \<and> detector w'' = None
      \<and> trace w'' = trace ?w' @ [DrawCtx c, DrawIndicators c, RequestAnimationFrame (nextRafId w1)]"
    if "camera w1 = Some c" "videoReady e \<or> loadedData e" for c
  proof -
    have "camera ?w' = Some c" "detector ?w' = None"
      using that(1) by (simp_all add: clr con keep)
    from renderResult_without_detector [OF this(1) that(2) this(2)] obtain w2 where
      w2: "renderResult e ?w' = Inr w2" "trace w2 = trace ?w' @ [DrawCtx c, DrawIndicators c]"
        "detector w2 = None" "nextRafId w2 = nextRafId ?w'"
      by blast
    then show ?thesis
      by (simp add: renderPrediction_def run clr(5) requestAnimationFrame_def emit_def
          clr(3) con(4) keep(2))
  qed
  show ?thesis
    using run resumes by (simp add: clr con)
qed

theorem C4_witness:
  "reconcileCapture factoryFails reselected = Inr reselected
   \<and> isModelChanged (STATE reselected)
   \<and> factory factoryFails = Rejected ''404''
   \<and> detector (final (checkGuiUpdate factoryFails reselected)) = None
   \<and> trace (final (renderPrediction factoryFails reselected)) = trace reselected @
       [SetFlag IsModelChanged True, CancelAnimationFrame None, Dispose 0,
        CreateDetector (Some (MoveNet, MoveNetOptions (Some SINGLEPOSE_LIGHTNING) None)),
        Alert ''404'',
        SetFlag IsFlagChanged False, SetFlag IsBackendChanged False, SetFlag IsModelChanged False,
        DrawCtx 7, DrawIndicators 7, RequestAnimationFrame 0]"
proof -
  have h1: "reconcileCapture factoryFails reselected = Inr reselected"
    by (simp add: reconcileCapture_def reselected_def running_def scenarioA_def panel_def)
  have h2: "isModelChanged (STATE reselected) \<or> isFlagChanged (STATE reselected)
      \<or> isBackendChanged (STATE reselected)"
    by (simp add: reselected_def panel_def)
  have w4: "applyBackend factoryFails (teardown reselected) =
      reselected\<lparr>trace := trace reselected @
        [SetFlag IsModelChanged True, CancelAnimationFrame None, Dispose 0]\<rparr>"
    by (simp add: reselected_def running_def scenarioA_def teardown_def applyBackend_def
        setFlag_def writeFlag_def emit_def panel_def Let_def)
  have h3: "createDetector (STATE (applyBackend factoryFails (teardown reselected)))
      = Some (MoveNet, MoveNetOptions (Some SINGLEPOSE_LIGHTNING) None)"
    by (simp add: w4) (simp add: reselected_def running_def scenarioA_def panel_def
        createDetector_def moveNetCase_def moveNetModelType_def jsget_def)
  have h4: "factory factoryFails = Rejected ''404''"
    by (simp add: factoryFails_def)
  have cam: "camera reselected = Some 7" "nextRafId reselected = 0"
    "videoReady factoryFails \<or> loadedData factoryFails"
    by (simp_all add: reselected_def running_def panel_def factoryFails_def calm_def)
  have gate: "isModelChanged (STATE reselected)"
    by (simp add: reselected_def panel_def)
  from C4_construction_failure [OF h1 h2 h3 h4] cam
  show ?thesis
    by (auto simp: h1 h4 w4 gate)
qed

section \<open>A failing inference\<close>

text \<open>
  Claim C5. In a tick whose inference step calls \<open>estimatePoses\<close> and that call rejects,
  the handle is disposed, the reference is set to null, the error is shown by \<open>alert\<close>,
  \<open>poses\<close> stays null; the frame and the indicators are still drawn, no poses are, and
  the tick ends by scheduling the next one.
\<close>

theorem C5_inference_failure:
  assumes "checkGuiUpdate e w0 = Inr w"
    and "camera w = Some c" and "videoReady e \<or> loadedData e"
    and "detector w = Some h"
    and "estimatePoses e = Rejected err"
  shows "\<exists>w1 w' cfg.
           awaitFrame e w = Inr w1 \<and> fst (inferenceStep e c w1) = None
         \<and> renderPrediction e w0 = Inr w'
         \<and> detector w' = None
         \<and> trace w' = trace w @
             [EstimatePoses h c cfg, Dispose h, Alert err,
              DrawCtx c, DrawIndicators c, RequestAnimationFrame (nextRafId w)]"
proof -
  from awaitFrame_resumes [OF assms(2,3)] obtain w1 where
    w1: "awaitFrame e w = Inr w1" "camera w1 = Some c" "detector w1 = detector w"
      "trace w1 = trace w" "nextRafId w1 = nextRafId w"
    by blast
  let ?cfg = "\<lparr>maxPoses = jsget (modelConfig (STATE w1)) ''maxPoses'', flipHorizontal = False\<rparr>"
  obtain w2 where inf: "inferenceStep e c w1 = (None, w2)" "detector w2 = None"
    "trace w2 = trace w @ [EstimatePoses h c ?cfg, Dispose h, Alert err]"
    "nextRafId w2 = nextRafId w"
    using assms(4,5) w1 by (simp add: inferenceStep_def emit_def panel_def Let_def)
  have gate: "\<not> isModelChanged (STATE w)"
    using assms(1) by (rule gate_after_checkGuiUpdate)
  have rr: "renderResult e w = Inr (renderStep c None w2)"
    by (simp add: renderResult_def w1 inf)
  have rs: "trace (renderStep c None w2) = trace w2 @ [DrawCtx c, DrawIndicators c]"
    "detector (renderStep c None w2) = detector w2"
    "nextRafId (renderStep c None w2) = nextRafId w2"
    by (simp_all add: renderStep_def emit_def Let_def)
  have "renderPrediction e w0 = Inr (requestAnimationFrame (renderStep c None w2))"
    by (simp add: renderPrediction_def assms(1) gate rr)
  moreover have "detector (requestAnimationFrame (renderStep c None w2)) = None"
    "trace (requestAnimationFrame (renderStep c None w2)) = trace w @
       [EstimatePoses h c ?cfg, Dispose h, Alert err,
        DrawCtx c, DrawIndicators c, RequestAnimationFrame (nextRafId w)]"
    by (simp_all add: requestAnimationFrame_def emit_def rs inf)
  ultimately show ?thesis using w1(1) inf(1) by fastforce
qed

theorem C5_witness:
  "checkGuiUpdate estimateFails running = Inr running
   \<and> detector running = Some 0
   \<and> estimatePoses estimateFails = Rejected ''bad output''
   \<and> detector (final (renderPrediction estimateFails running)) = None
   \<and> drop 6 (trace (final (renderPrediction estimateFails running))) =
       [Dispose 0, Alert ''bad output'', DrawCtx 7, DrawIndicators 7, RequestAnimationFrame 0]"
proof -
  have h1: "checkGuiUpdate estimateFails running = Inr running"
    by (simp add: checkGuiUpdate_def reconcileCapture_def reconcileModel_def running_def
        scenarioA_def)
  have h2: "camera running = Some 7" and h4: "detector running = Some 0"
    and n: "nextRafId running = 0" and l: "length (trace running) = 5"
    by (simp_all add: running_def)
  have h3: "videoReady estimateFails \<or> loadedData estimateFails"
    and h5: "estimatePoses estimateFails = Rejected ''bad output''"
    by (simp_all add: estimateFails_def calm_def)
  from C5_inference_failure [OF h1 h2 h3 h4 h5] l
  show ?thesis by (auto simp: h1 h4 h5 n)
qed

section \<open>The options of the inference\<close>

text \<open>
  Claim C7, as the code has it. Whenever the inference step calls \<open>estimatePoses\<close>, the
  options carry \<open>maxPoses\<close> as \<open>STATE.modelConfig.maxPoses\<close> has it at the call, and
  \<open>flipHorizontal\<close> is the constant \<open>false\<close>, whatever the configuration holds.
\<close>

theorem C7_estimation_options:
  assumes "detector w = Some h"
  shows "trace (snd (inferenceStep e c w)) = trace w @
           EstimatePoses h c
             \<lparr>maxPoses = jsget (modelConfig (STATE w)) ''maxPoses'', flipHorizontal = False\<rparr>
           # (case estimatePoses e of
                Resolved ps \<Rightarrow> []
              | Rejected err \<Rightarrow> [Dispose h, Alert err])"
  using assms
  by (simp add: inferenceStep_def emit_def panel_def Let_def split: settled.splits)

theorem C7_witness:
  "detector mirrored = Some 0
   \<and> trace (snd (inferenceStep calm 7 mirrored)) = trace mirrored @
       [EstimatePoses 0 7 \<lparr>maxPoses = JNum 1, flipHorizontal = False\<rparr>]"
proof -
  have h: "detector mirrored = Some 0" by (simp add: mirrored_def running_def)
  from C7_estimation_options [OF h, of calm 7] show ?thesis
    by (simp add: h) (simp add: mirrored_def calm_def jsget_def)
qed

text \<open>
  Claim C7 as stated fails for the flag: the configuration asks for a mirrored image,
  and the options passed say \<open>flipHorizontal: false\<close>.
\<close>

theorem C7_counterexample:
  "jsget (modelConfig (STATE mirrored)) ''flipHorizontal'' = JBool True
   \<and> detector mirrored = Some 0
   \<and> trace (snd (inferenceStep calm 7 mirrored)) = trace mirrored @
       [EstimatePoses 0 7 \<lparr>maxPoses = JNum 1, flipHorizontal = False\<rparr>]"
  by (simp add: mirrored_def running_def calm_def inferenceStep_def emit_def panel_def jsget_def
      Let_def)

section \<open>A camera that cannot be set up at the start\<close>

text \<open>
  Claim C9, as the code has it. When the query string names a model and
  \<open>Camera.setupCamera\<close> rejects during the start-up, \<open>app\<close> ends with that rejection,
  which nothing catches: after the set-up of the panel and the one call of
  \<open>setupCamera\<close> the module does nothing more, whatever ticks the surroundings would
  have offered. No \<open>alert\<close> is raised, no frame callback is requested, the set-up is not
  tried again.
\<close>

theorem C9_camera_failure_at_startup:
  assumes "''model'' \<in> set (map fst urlParams)" and "setupCamera e = Rejected err"
  shows "\<exists>w'. app urlParams e ticks w = Inl (DeviceError err, w')
           \<and> trace w' = trace w @
               [SetupDatGui, SetupCamera (cameraParams (duringSetupDatGui e (STATE w)))]
           \<and> detector w' = detector w \<and> rafId w' = rafId w"
  using assms by (simp add: app_def emit_def panel_def Let_def)

theorem C9_witness:
  "''model'' \<in> set (map fst query)
   \<and> setupCamera cameraFails = Rejected ''NotFoundError''
   \<and> app query cameraFails [calm, calm] (world0 scenarioA)
       = Inl (DeviceError ''NotFoundError'',
              (world0 scenarioA)\<lparr>trace := [SetupDatGui, SetupCamera Map.empty]\<rparr>)"
proof -
  have h1: "''model'' \<in> set (map fst query)" by (simp add: query_def)
  have h2: "setupCamera cameraFails = Rejected ''NotFoundError''"
    by (simp add: cameraFails_def)
  from C9_camera_failure_at_startup [OF h1 h2, of "[calm, calm]" "world0 scenarioA"]
  obtain w' where w': "app query cameraFails [calm, calm] (world0 scenarioA)
       = Inl (DeviceError ''NotFoundError'', w')"
    by blast
  then have "w' = (world0 scenarioA)\<lparr>trace := [SetupDatGui, SetupCamera Map.empty]\<rparr>"
    by (simp add: app_def query_def cameraFails_def calm_def world0_def scenarioA_def emit_def
        panel_def Let_def)
  with w' h1 h2 show ?thesis by simp
qed

text \<open>
  Claim C9 as stated fails in its first half: the error of the camera is not reported
  through \<open>alert\<close>.
\<close>

theorem C9_counterexample:
  "trace (final (app query cameraFails [calm, calm] (world0 scenarioA)))
     = [SetupDatGui, SetupCamera Map.empty]
   \<and> Alert ''NotFoundError'' \<notin> set (trace (final (app query cameraFails [calm, calm] (world0 scenarioA))))"
  by (simp add: app_def query_def cameraFails_def calm_def world0_def scenarioA_def emit_def
      panel_def Let_def)

end
